theory Spec2Isabelle
  imports Complex_Main
begin

section \<open>Python values and exceptions\<close>

text \<open>
  The values that the settings of \<^verbatim>\<open>voltha/main.py\<close> can hold: \<^verbatim>\<open>None\<close>, a \<^verbatim>\<open>str\<close>
  or an \<^verbatim>\<open>int\<close>.
\<close>

datatype pyval = PNone | PStr string | PInt int

text \<open>
  The exceptions that leave a function of the module. \<open>SystemExit2\<close> is the exit of
  \<^verbatim>\<open>argparse\<close> on an invalid argument; \<open>Raised n\<close> is exception number \<open>n\<close> of a
  collaborator (a subsystem, the logging set-up).
\<close>

datatype error = TypeError | AttributeError | IOError | YAMLError | SystemExit2 | Raised nat

section \<open>\<^verbatim>\<open>defs\<close>: defaults taken from the environment (lines 34--45)\<close>

record defaults =
  defs_consul :: pyval
  defs_instance_id :: pyval
  defs_config :: pyval
  defs_interface :: pyval
  defs_internal_host_address :: pyval
  defs_external_host_address :: pyval
  defs_fluentd :: pyval
  defs_rest_port :: pyval

text \<open>
  What \<^verbatim>\<open>defs\<close> reads from outside the module: \<^verbatim>\<open>os.environ\<close> and the results of
  \<^verbatim>\<open>get_my_primary_interface()\<close>, \<^verbatim>\<open>get_my_primary_local_ipv4()\<close> (module
  \<^verbatim>\<open>voltha.nethelpers\<close>) and, for \<^verbatim>\<open>parse_args\<close>, of \<^verbatim>\<open>get_my_containers_name()\<close>
  (module \<^verbatim>\<open>voltha.dockerhelpers\<close>). The helpers are not part of \<^verbatim>\<open>main.py\<close>; their
  results are parameters.
\<close>

record host =
  environ :: "string \<rightharpoonup> string"
  my_primary_interface :: pyval
  my_primary_local_ipv4 :: pyval
  my_containers_name :: pyval

text \<open>\<^verbatim>\<open>os.environ.get(key, default)\<close>: the variable's string when it is set.\<close>

definition environ_get :: "(string \<rightharpoonup> string) \<Rightarrow> string \<Rightarrow> pyval \<Rightarrow> pyval" where
  "environ_get env key dflt = (case env key of Some v \<Rightarrow> PStr v | None \<Rightarrow> dflt)"

definition defs :: "host \<Rightarrow> defaults" where
  "defs h =
     \<lparr> defs_consul = environ_get (environ h) ''CONSUL'' (PStr ''localhost:8500''),
       defs_instance_id =
         environ_get (environ h) ''INSTANCE_ID''
           (environ_get (environ h) ''HOSTNAME'' (PStr ''1'')),
       defs_config = environ_get (environ h) ''CONFIG'' (PStr ''./voltha.yml''),
       defs_interface = environ_get (environ h) ''INTERFACE'' (my_primary_interface h),
       defs_internal_host_address =
         environ_get (environ h) ''INTERNAL_HOST_ADDRESS'' (my_primary_local_ipv4 h),
       defs_external_host_address =
         environ_get (environ h) ''EXTERNAL_HOST_ADDRESS'' (my_primary_local_ipv4 h),
       defs_fluentd = environ_get (environ h) ''FLUENTD'' PNone,
       defs_rest_port = environ_get (environ h) ''REST_PORT'' (PInt 8880) \<rparr>"

section \<open>\<^verbatim>\<open>parse_args\<close> (lines 48--158)\<close>

text \<open>
  The command line as \<^verbatim>\<open>argparse\<close> has recognised it: for each \<^verbatim>\<open>store\<close> option the
  string of its last occurrence (\<open>None\<close> when the option is absent), for each
  \<^verbatim>\<open>store_true\<close> option whether it occurs, for each \<^verbatim>\<open>count\<close> option how often.
\<close>

record cli =
  opt_config :: "string option"
  opt_consul :: "string option"
  opt_external_host_address :: "string option"
  opt_fluentd :: "string option"
  opt_internal_host_address :: "string option"
  opt_instance_id :: "string option"
  opt_interface :: "string option"
  opt_no_banner :: bool
  opt_no_heartbeat :: bool
  opt_rest_port :: "string option"
  opt_quiet :: nat
  opt_verbose :: nat
  opt_instance_id_is_container_name :: bool

text \<open>The namespace that \<^verbatim>\<open>parse_args\<close> returns.\<close>

record args =
  config :: pyval
  consul :: pyval
  external_host_address :: pyval
  fluentd :: pyval
  internal_host_address :: pyval
  instance_id :: pyval
  interface :: pyval
  no_banner :: bool
  no_heartbeat :: bool
  rest_port :: pyval
  quiet :: pyval
  verbose :: pyval
  instance_id_is_container_name :: bool

text \<open>
  The \<^verbatim>\<open>%\<close> operator with one conversion. \<^verbatim>\<open>%s\<close> formats any value and never
  raises, so the help texts built with it leave no trace in the model; \<^verbatim>\<open>%d\<close> raises
  \<^verbatim>\<open>TypeError\<close> unless the value is a number. Only whether the formatting raises
  matters: the help texts are shown on \<^verbatim>\<open>-h\<close> alone, which is not modelled.
\<close>

definition format_d :: "pyval \<Rightarrow> error + unit" where
  "format_d v = (case v of PInt n \<Rightarrow> Inr () | PStr s \<Rightarrow> Inl TypeError | PNone \<Rightarrow> Inl TypeError)"

text \<open>
  \<^verbatim>\<open>int(s)\<close> on a string, base 10: white space around the literal is dropped, a sign may
  lead, and at least one digit follows, digits only.
\<close>

definition is_space :: "char \<Rightarrow> bool" where
  "is_space c = (c \<in> set [CHR '' '', CHR 0x09, CHR 0x0A, CHR 0x0B, CHR 0x0C, CHR 0x0D])"

definition is_digit :: "char \<Rightarrow> bool" where
  "is_digit c = (c \<in> set ''0123456789'')"

definition digit_val :: "char \<Rightarrow> int" where
  "digit_val c = int (of_char c) - 48"

definition strip :: "string \<Rightarrow> string" where
  "strip s = rev (dropWhile is_space (rev (dropWhile is_space s)))"

definition digits_int :: "string \<Rightarrow> int option" where
  "digits_int s =
     (if s \<noteq> [] \<and> list_all is_digit s
      then Some (foldl (\<lambda>acc c. 10 * acc + digit_val c) 0 s) else None)"

definition py_int :: "string \<Rightarrow> int option" where
  "py_int s =
     (case strip s of
        [] \<Rightarrow> None
      | c # r \<Rightarrow>
          if c = CHR ''-'' then map_option uminus (digits_int r)
          else if c = CHR ''+'' then digits_int r
          else digits_int (c # r))"

text \<open>
  The \<^verbatim>\<open>store\<close> action of \<^verbatim>\<open>argparse\<close>. Without \<^verbatim>\<open>type\<close>, the attribute is the string
  given on the command line, else the default. With \<^verbatim>\<open>type=int\<close>, the string given is
  converted; when the option is absent and the default is a string, \<^verbatim>\<open>argparse\<close> converts
  the default the same way (``if the default value is a string, the parser parses the
  value as if it were a command-line argument''); any other default is used as it is. A
  string that \<^verbatim>\<open>int\<close> rejects ends the process with status 2.
\<close>

definition store :: "string option \<Rightarrow> pyval \<Rightarrow> pyval" where
  "store given dflt = (case given of Some s \<Rightarrow> PStr s | None \<Rightarrow> dflt)"

definition type_int :: "string \<Rightarrow> error + pyval" where
  "type_int s = (case py_int s of Some n \<Rightarrow> Inr (PInt n) | None \<Rightarrow> Inl SystemExit2)"

definition store_int :: "string option \<Rightarrow> pyval \<Rightarrow> error + pyval" where
  "store_int given dflt =
     (case given of
        Some s \<Rightarrow> type_int s
      | None \<Rightarrow> (case dflt of PStr s \<Rightarrow> type_int s | PInt n \<Rightarrow> Inr (PInt n) | PNone \<Rightarrow> Inr PNone))"

text \<open>The \<^verbatim>\<open>count\<close> action without a default: \<^verbatim>\<open>None\<close> when the option does not occur.\<close>

definition count :: "nat \<Rightarrow> pyval" where
  "count n = (if n = 0 then PNone else PInt (int n))"

text \<open>
  \<^verbatim>\<open>parse_args\<close>. The help texts are built first, in the order of the source; the only one
  that can raise is the \<^verbatim>\<open>%d\<close> of \<^verbatim>\<open>rest_port\<close> (line 122). Then the parser runs, and the
  post-processing replaces the instance id by the container's name when the flag is set.
\<close>

definition parse_args :: "host \<Rightarrow> cli \<Rightarrow> error + args" where
  "parse_args h c =
     (let d = defs h in
      case format_d (defs_rest_port d) of
        Inl e \<Rightarrow> Inl e
      | Inr _ \<Rightarrow>
          (case store_int (opt_rest_port c) (defs_rest_port d) of
             Inl e \<Rightarrow> Inl e
           | Inr port \<Rightarrow>
               (let a = \<lparr> config = store (opt_config c) (defs_config d),
                           consul = store (opt_consul c) (defs_consul d),
                           external_host_address =
                             store (opt_external_host_address c) (defs_external_host_address d),
                           fluentd = store (opt_fluentd c) (defs_fluentd d),
                           internal_host_address =
                             store (opt_internal_host_address c) (defs_internal_host_address d),
                           instance_id = store (opt_instance_id c) (defs_instance_id d),
                           interface = store (opt_interface c) (defs_interface d),
                           no_banner = opt_no_banner c,
                           no_heartbeat = opt_no_heartbeat c,
                           rest_port = port,
                           quiet = count (opt_quiet c),
                           verbose = count (opt_verbose c),
                           instance_id_is_container_name =
                             opt_instance_id_is_container_name c \<rparr>
                in Inr (if instance_id_is_container_name a
                        then a\<lparr>instance_id := my_containers_name h\<rparr> else a))))"

section \<open>\<^verbatim>\<open>load_config\<close> (lines 161--169)\<close>

subsection \<open>The functions of \<^verbatim>\<open>os.path\<close> (POSIX) that it calls\<close>

definition startswith :: "string \<Rightarrow> string \<Rightarrow> bool" where
  "startswith s p = (take (length p) s = p)"

definition endswith :: "string \<Rightarrow> string \<Rightarrow> bool" where
  "endswith s p = (length p \<le> length s \<and> drop (length s - length p) s = p)"

text \<open>\<^verbatim>\<open>s.split('/')\<close>: the pieces between the slashes, empty pieces included.\<close>

fun split_slash :: "string \<Rightarrow> string list" where
  "split_slash [] = [[]]"
| "split_slash (c # cs) =
     (if c = CHR ''/'' then [] # split_slash cs
      else (case split_slash cs of [] \<Rightarrow> [[c]] | p # ps \<Rightarrow> (c # p) # ps))"

text \<open>\<^verbatim>\<open>'/'.join(comps)\<close>.\<close>

fun join_slash :: "string list \<Rightarrow> string" where
  "join_slash [] = []"
| "join_slash [x] = x"
| "join_slash (x # y # ys) = x @ ''/'' @ join_slash (y # ys)"

text \<open>\<^verbatim>\<open>os.path.join(a, b)\<close>: an absolute \<open>b\<close> replaces \<open>a\<close>.\<close>

definition path_join :: "string \<Rightarrow> string \<Rightarrow> string" where
  "path_join a b =
     (if startswith b ''/'' then b
      else if a = [] \<or> endswith a ''/'' then a @ b
      else a @ ''/'' @ b)"

text \<open>
  \<^verbatim>\<open>os.path.dirname(p)\<close>: the part up to the last slash, without the trailing slashes
  unless it is made of slashes only.
\<close>

definition dirname :: "string \<Rightarrow> string" where
  "dirname p =
     (let head = rev (dropWhile (\<lambda>c. c \<noteq> CHR ''/'') (rev p))
      in if head \<noteq> [] \<and> head \<noteq> replicate (length head) (CHR ''/'')
         then rev (dropWhile (\<lambda>c. c = CHR ''/'') (rev head)) else head)"

text \<open>
  One round of the loop of \<^verbatim>\<open>os.path.normpath\<close> over the components: empty and
  \<^verbatim>\<open>.\<close> components are skipped, \<^verbatim>\<open>..\<close> removes the component before it when
  there is one to remove.
\<close>

definition norm_step :: "nat \<Rightarrow> string list \<Rightarrow> string \<Rightarrow> string list" where
  "norm_step initial_slashes new_comps cmp =
     (if cmp = [] \<or> cmp = ''.'' then new_comps
      else if cmp \<noteq> ''..'' \<or> (initial_slashes = 0 \<and> new_comps = [])
                \<or> (new_comps \<noteq> [] \<and> last new_comps = ''..'')
      then new_comps @ [cmp]
      else if new_comps \<noteq> [] then butlast new_comps
      else new_comps)"

definition normpath :: "string \<Rightarrow> string" where
  "normpath path =
     (if path = [] then ''.''
      else
        (let initial_slashes =
               (if startswith path ''/''
                then (if startswith path ''//'' \<and> \<not> startswith path ''///'' then 2 else 1)
                else (0::nat));
             comps = foldl (norm_step initial_slashes) [] (split_slash path);
             joined = replicate initial_slashes (CHR ''/'') @ join_slash comps
         in if joined = [] then ''.'' else joined))"

text \<open>\<^verbatim>\<open>os.path.abspath(path)\<close>, with the current working directory as a parameter.\<close>

definition abspath :: "string \<Rightarrow> string \<Rightarrow> string" where
  "abspath cwd path = normpath (if startswith path ''/'' then path else path_join cwd path)"

subsection \<open>The path that is opened\<close>

text \<open>
  The process as \<^verbatim>\<open>load_config\<close> sees it: the current working directory
  (\<^verbatim>\<open>os.getcwd()\<close>), the value of \<^verbatim>\<open>__file__\<close>, the files that \<^verbatim>\<open>open\<close> can read
  (by absolute path, with their text), and the YAML parser, which is a library: \<open>None\<close>
  where \<^verbatim>\<open>yaml.load\<close> raises.
\<close>

datatype yaml = YNull | YScalar string | YList "yaml list" | YDict "(string \<times> yaml) list"

record filesystem =
  getcwd :: string
  module_file :: string
  files :: "string \<rightharpoonup> string"
  yaml_load :: "string \<Rightarrow> yaml option"

text \<open>Lines 163--166: the path handed to \<^verbatim>\<open>open\<close>.\<close>

definition config_path :: "filesystem \<Rightarrow> string \<Rightarrow> string" where
  "config_path fs path =
     abspath (getcwd fs)
       (if startswith path ''.''
        then path_join (dirname (abspath (getcwd fs) (module_file fs))) path
        else path)"

text \<open>
  \<^verbatim>\<open>load_config\<close>: \<^verbatim>\<open>open\<close> raises \<^verbatim>\<open>IOError\<close> on a file it cannot read, \<^verbatim>\<open>yaml.load\<close>
  raises on a text it cannot parse, and neither is caught. A \<^verbatim>\<open>config\<close> that is not a
  string has no \<^verbatim>\<open>startswith\<close>.
\<close>

definition load_config :: "filesystem \<Rightarrow> args \<Rightarrow> error + yaml" where
  "load_config fs a =
     (case config a of
        PStr path \<Rightarrow>
          (case files fs (config_path fs path) of
             None \<Rightarrow> Inl IOError
           | Some text \<Rightarrow>
               (case yaml_load fs text of None \<Rightarrow> Inl YAMLError | Some doc \<Rightarrow> Inr doc))
      | PInt n \<Rightarrow> Inl AttributeError
      | PNone \<Rightarrow> Inl AttributeError)"

section \<open>The heartbeat (lines 240--250)\<close>

text \<open>
  Time is the value of \<^verbatim>\<open>time.time()\<close>, seconds as a real number. \<^verbatim>\<open>time.ctime\<close> is a
  library function and a parameter here.
\<close>

record heartbeat_timer =
  t0 :: real
  t0s :: string
  interval :: nat


text \<open>
  \<^verbatim>\<open>start_heartbeat\<close> reads the clock once, labels the reading and starts a
  \<^verbatim>\<open>LoopingCall\<close> of the closure \<^verbatim>\<open>heartbeat\<close> with \<^verbatim>\<open>lc.start(10)\<close>. The timer keeps what
  the closure captured and the interval.
\<close>

definition start_heartbeat :: "(real \<Rightarrow> string) \<Rightarrow> real \<Rightarrow> heartbeat_timer" where
  "start_heartbeat ctime now = \<lparr> t0 = now, t0s = ctime now, interval = 10 \<rparr>"




section \<open>The class \<^verbatim>\<open>Main\<close> (lines 181--250)\<close>

datatype subsystem = Coordinator | RestService | GrpcServer

text \<open>The subsystems in the order in which \<^verbatim>\<open>startup_components\<close> starts them.\<close>

definition declared :: "subsystem list" where
  "declared = [Coordinator, RestService, GrpcServer]"

text \<open>A handle is the object that a subsystem's start returned.\<close>

type_synonym handle = nat

text \<open>
  What a \<^verbatim>\<open>shutdown()\<close> that is awaited with \<^verbatim>\<open>yield\<close> comes to: its result (or the
  Deferred it returned) fires, it raises (or the Deferred fails), or the Deferred never
  fires.
\<close>

datatype deferred = Fired | Errback error | Unfired

text \<open>
  What can be observed of a run, in the order in which it happens: the phases of
  \<^verbatim>\<open>__init__\<close> as they complete, the \<^verbatim>\<open>info\<close> lines of the log (the six lines of the
  banner are one event), the arming of the heartbeat (\<^verbatim>\<open>lc.start(10)\<close>; the ticks
  themselves are the subject of \<open>ticks\<close> and are not part of the trace), the
  invocation of a subsystem's start, the call of a handle's \<^verbatim>\<open>shutdown()\<close> and its
  completion, and the entry into and exit from \<^verbatim>\<open>reactor.run()\<close>.
\<close>

datatype event =
    ArgsParsed
  | ConfigLoaded
  | LoggingSetUp
  | Banner
  | HeartbeatArmed heartbeat_timer
  | LogInfo string
  | StartCalled subsystem
  | ShutdownCalled handle
  | ShutdownDone handle
  | ReactorRun
  | ReactorStopped

text \<open>
  The collaborators of \<^verbatim>\<open>Main\<close>, none of them in \<^verbatim>\<open>main.py\<close>: what
  \<^verbatim>\<open>setup_logging\<close> does with its arguments (\<open>Some e\<close> when it raises), the clock, what
  \<^verbatim>\<open>Coordinator(...)\<close>, \<^verbatim>\<open>init_rest_service(...)\<close> and \<^verbatim>\<open>VolthaGrpcServer().run()\<close> do
  (\<^verbatim>\<open>run\<close> returns an object or \<^verbatim>\<open>None\<close>), what the \<^verbatim>\<open>shutdown()\<close> of a handle comes to,
  and whether the reactor ever receives a termination signal.
\<close>

record world =
  the_host :: host
  the_filesystem :: filesystem
  setup_logging :: "yaml \<Rightarrow> pyval \<Rightarrow> int \<Rightarrow> pyval \<Rightarrow> error option"
  time_time :: real
  time_ctime :: "real \<Rightarrow> string"
  new_coordinator :: "error + handle"
  init_rest_service :: "error option"
  grpc_server_run :: "error + handle option"
  shutdown_result :: "handle \<Rightarrow> deferred"
  interrupted :: bool

text \<open>The attributes of a \<^verbatim>\<open>Main\<close> object.\<close>

record main_state =
  self_args :: args
  self_config :: yaml
  coordinator :: "handle option"
  grpc_server :: "handle option"

subsection \<open>Runs: a result or an exception, with the events so far\<close>

type_synonym 'a run = "(error + 'a) \<times> event list"

definition returns :: "'a \<Rightarrow> 'a run" where
  "returns x = (Inr x, [])"

definition emit :: "event \<Rightarrow> unit run" where
  "emit ev = (Inr (), [ev])"

definition lift :: "error + 'a \<Rightarrow> 'a run" where
  "lift r = (r, [])"

definition raise_if :: "error option \<Rightarrow> unit run" where
  "raise_if r = (case r of Some e \<Rightarrow> (Inl e, []) | None \<Rightarrow> (Inr (), []))"

text \<open>Sequencing: an exception ends the run, as nothing in \<^verbatim>\<open>main.py\<close> catches one.\<close>

definition bind_run :: "'a run \<Rightarrow> ('a \<Rightarrow> 'b run) \<Rightarrow> 'b run" where
  "bind_run m f =
     (case m of
        (Inl e, t) \<Rightarrow> (Inl e, t)
      | (Inr x, t) \<Rightarrow> (case f x of (r, t') \<Rightarrow> (r, t @ t')))"

subsection \<open>\<^verbatim>\<open>startup_components\<close> (lines 209--221)\<close>

definition startup_components :: "world \<Rightarrow> main_state \<Rightarrow> main_state run" where
  "startup_components w s =
     bind_run (emit (LogInfo ''starting-internal-components'')) (\<lambda>_.
     bind_run (emit (StartCalled Coordinator)) (\<lambda>_.
     bind_run (lift (new_coordinator w)) (\<lambda>c.
     bind_run (emit (StartCalled RestService)) (\<lambda>_.
     bind_run (raise_if (init_rest_service w)) (\<lambda>_.
     bind_run (emit (StartCalled GrpcServer)) (\<lambda>_.
     bind_run (lift (grpc_server_run w)) (\<lambda>g.
     bind_run (emit (LogInfo ''started-internal-services'')) (\<lambda>_.
     returns (s\<lparr>coordinator := Some c, grpc_server := g\<rparr>)))))))))"

subsection \<open>\<^verbatim>\<open>shutdown_components\<close> (lines 223--230)\<close>

text \<open>
  One guarded statement \<^verbatim>\<open>if h is not None: yield h.shutdown()\<close>: nothing happens on
  \<^verbatim>\<open>None\<close>; otherwise \<^verbatim>\<open>shutdown()\<close> is called and the generator resumes when its result
  has fired.
\<close>

definition yield_shutdown :: "world \<Rightarrow> handle option \<Rightarrow> deferred \<times> event list" where
  "yield_shutdown w h =
     (case h of
        None \<Rightarrow> (Fired, [])
      | Some x \<Rightarrow>
          (case shutdown_result w x of
             Fired \<Rightarrow> (Fired, [ShutdownCalled x, ShutdownDone x])
           | Errback e \<Rightarrow> (Errback e, [ShutdownCalled x])
           | Unfired \<Rightarrow> (Unfired, [ShutdownCalled x])))"

text \<open>
  \<^verbatim>\<open>shutdown_components\<close> under \<^verbatim>\<open>inlineCallbacks\<close>: the Deferred of the whole call, the
  object afterwards (no attribute is assigned) and the events. An exception at a
  \<^verbatim>\<open>yield\<close> is not caught, so the second statement is not reached then, nor while the
  first Deferred has not fired.
\<close>

definition shutdown_components :: "world \<Rightarrow> main_state \<Rightarrow> (deferred \<times> main_state) \<times> event list" where
  "shutdown_components w s =
     (case yield_shutdown w (coordinator s) of
        (Fired, t1) \<Rightarrow>
          (case yield_shutdown w (grpc_server s) of
             (d, t2) \<Rightarrow> ((d, s), LogInfo ''exiting-on-keyboard-interrupt'' # t1 @ t2))
      | (Errback e, t1) \<Rightarrow> ((Errback e, s), LogInfo ''exiting-on-keyboard-interrupt'' # t1)
      | (Unfired, t1) \<Rightarrow> ((Unfired, s), LogInfo ''exiting-on-keyboard-interrupt'' # t1))"

subsection \<open>\<^verbatim>\<open>__init__\<close> (lines 183--204)\<close>

text \<open>\<^verbatim>\<open>d.get(key, default)\<close>; a value that is not a dictionary has no \<^verbatim>\<open>get\<close>.\<close>

definition dict_get :: "yaml \<Rightarrow> string \<Rightarrow> yaml \<Rightarrow> error + yaml" where
  "dict_get d key dflt =
     (case d of
        YDict kvs \<Rightarrow> Inr (case map_of kvs key of Some v \<Rightarrow> v | None \<Rightarrow> dflt)
      | YNull \<Rightarrow> Inl AttributeError
      | YScalar x \<Rightarrow> Inl AttributeError
      | YList xs \<Rightarrow> Inl AttributeError)"

text \<open>\<^verbatim>\<open>v or 0\<close> for a counter, which is \<^verbatim>\<open>None\<close> or a positive \<^verbatim>\<open>int\<close>.\<close>

definition or_zero :: "pyval \<Rightarrow> int" where
  "or_zero v = (case v of PInt n \<Rightarrow> n | PNone \<Rightarrow> 0 | PStr x \<Rightarrow> 0)"

definition main_init :: "world \<Rightarrow> cli \<Rightarrow> main_state run" where
  "main_init w c =
     bind_run (lift (parse_args (the_host w) c)) (\<lambda>a.
     bind_run (emit ArgsParsed) (\<lambda>_.
     bind_run (lift (load_config (the_filesystem w) a)) (\<lambda>cfg.
     bind_run (emit ConfigLoaded) (\<lambda>_.
     bind_run (lift (dict_get cfg ''logging'' (YDict []))) (\<lambda>logging.
     bind_run (raise_if (setup_logging w logging (instance_id a)
                           (or_zero (verbose a) - or_zero (quiet a)) (fluentd a))) (\<lambda>_.
     bind_run (emit LoggingSetUp) (\<lambda>_.
     bind_run (if \<not> no_banner a then emit Banner else returns ()) (\<lambda>_.
     bind_run (if \<not> no_heartbeat a
               then emit (HeartbeatArmed (start_heartbeat (time_ctime w) (time_time w)))
               else returns ()) (\<lambda>_.
     startup_components w
       \<lparr> self_args = a, self_config = cfg, coordinator = None, grpc_server = None \<rparr>)))))))))"

subsection \<open>\<^verbatim>\<open>start\<close> and \<^verbatim>\<open>start_reactor\<close> (lines 206--207, 232--238)\<close>

text \<open>
  How the process ends: with an exception, by leaving \<^verbatim>\<open>reactor.run()\<close>, or not at all
  (the reactor keeps running, or waits for a Deferred of the shutdown trigger).
\<close>

datatype outcome = Crashed error | Exited | Blocked

text \<open>
  \<^verbatim>\<open>start_reactor\<close>: \<^verbatim>\<open>reactor.run()\<close> logs that the reactor has started and runs until a
  termination signal; it then fires the one \<^verbatim>\<open>before shutdown\<close> trigger,
  \<^verbatim>\<open>shutdown_components\<close>, and stops once the trigger's Deferred has fired or failed.
\<close>

definition start_reactor :: "world \<Rightarrow> main_state \<Rightarrow> outcome \<times> event list" where
  "start_reactor w s =
     (if interrupted w
      then (case shutdown_components w s of
              ((Unfired, s'), t) \<Rightarrow> (Blocked, [ReactorRun, LogInfo ''twisted-reactor-started''] @ t)
            | ((Fired, s'), t) \<Rightarrow>
                (Exited, [ReactorRun, LogInfo ''twisted-reactor-started''] @ t @ [ReactorStopped])
            | ((Errback e, s'), t) \<Rightarrow>
                (Exited, [ReactorRun, LogInfo ''twisted-reactor-started''] @ t @ [ReactorStopped]))
      else (Blocked, [ReactorRun, LogInfo ''twisted-reactor-started'']))"

text \<open>Line 254: \<^verbatim>\<open>Main().start()\<close>.\<close>

definition main :: "world \<Rightarrow> cli \<Rightarrow> outcome \<times> event list" where
  "main w c =
     (case main_init w c of
        (Inl e, t) \<Rightarrow> (Crashed e, t)
      | (Inr s, t) \<Rightarrow> (case start_reactor w s of (r, t') \<Rightarrow> (r, t @ t')))"

section \<open>Observations on a run\<close>

text \<open>The subsystems whose start was invoked, and the handles whose \<^verbatim>\<open>shutdown()\<close> was, in order.\<close>

fun start_calls :: "event list \<Rightarrow> subsystem list" where
  "start_calls [] = []"
| "start_calls (StartCalled x # t) = x # start_calls t"
| "start_calls (e # t) = start_calls t"

fun shutdown_calls :: "event list \<Rightarrow> handle list" where
  "shutdown_calls [] = []"
| "shutdown_calls (ShutdownCalled h # t) = h # shutdown_calls t"
| "shutdown_calls (e # t) = shutdown_calls t"

text \<open>The exception with which the start of a subsystem fails in a world, if it does.\<close>

definition start_failure :: "world \<Rightarrow> subsystem \<Rightarrow> error option" where
  "start_failure w x =
     (case x of
        Coordinator \<Rightarrow> (case new_coordinator w of Inl e \<Rightarrow> Some e | Inr c \<Rightarrow> None)
      | RestService \<Rightarrow> init_rest_service w
      | GrpcServer \<Rightarrow> (case grpc_server_run w of Inl e \<Rightarrow> Some e | Inr g \<Rightarrow> None))"

text \<open>Event \<open>a\<close> occurs in a trace before the first occurrence of \<open>b\<close>, if any.\<close>

definition occurs_before :: "event \<Rightarrow> event \<Rightarrow> event list \<Rightarrow> bool" where
  "occurs_before a b t = (a \<in> set (takeWhile (\<lambda>x. x \<noteq> b) t))"

section \<open>Concrete inputs\<close>

text \<open>
  A host with an empty environment, the same host with \<^verbatim>\<open>REST_PORT=7000\<close>, a command line
  without options, and a world in which the default configuration file
  \<^verbatim>\<open>/opt/voltha/voltha/voltha.yml\<close> is readable, every collaborator succeeds and an
  interrupt arrives.
\<close>

definition example_host :: host where
  "example_host =
     \<lparr> environ = Map.empty, my_primary_interface = PStr ''eth0'',
       my_primary_local_ipv4 = PStr ''10.0.0.5'', my_containers_name = PStr ''voltha_1'' \<rparr>"

definition rest_port_host :: host where
  "rest_port_host = example_host\<lparr>environ := [''REST_PORT'' \<mapsto> ''7000'']\<rparr>"

definition no_options :: cli where
  "no_options =
     \<lparr> opt_config = None, opt_consul = None, opt_external_host_address = None,
       opt_fluentd = None, opt_internal_host_address = None, opt_instance_id = None,
       opt_interface = None, opt_no_banner = False, opt_no_heartbeat = False,
       opt_rest_port = None, opt_quiet = 0, opt_verbose = 0,
       opt_instance_id_is_container_name = False \<rparr>"

definition example_filesystem :: filesystem where
  "example_filesystem =
     \<lparr> getcwd = ''/tmp'', module_file = ''/opt/voltha/voltha/main.py'',
       files = [''/opt/voltha/voltha/voltha.yml'' \<mapsto> ''logging: {}''],
       yaml_load = (\<lambda>text. if text = ''logging: {}'' then Some (YDict [(''logging'', YDict [])])
                           else None) \<rparr>"

definition example_world :: world where
  "example_world =
     \<lparr> the_host = example_host, the_filesystem = example_filesystem,
       setup_logging = (\<lambda>logging ident adjust sink. None),
       time_time = 100, time_ctime = (\<lambda>t. ''Thu Jan  1 00:01:40 1970''),
       new_coordinator = Inr 1, init_rest_service = None, grpc_server_run = Inr (Some 2),
       shutdown_result = (\<lambda>h. Fired), interrupted = True \<rparr>"

text \<open>
  The same world with no readable file at all, and with an \<^verbatim>\<open>init_rest_service\<close> that
  raises.
\<close>

definition unreadable_world :: world where
  "unreadable_world = example_world\<lparr>the_filesystem := example_filesystem\<lparr>files := Map.empty\<rparr>\<rparr>"

definition rest_failing_world :: world where
  "rest_failing_world = example_world\<lparr>init_rest_service := Some (Raised 7)\<rparr>"

text \<open>The namespace and the \<^verbatim>\<open>Main\<close> object that this world and command line lead to.\<close>

definition example_args :: args where
  "example_args =
     \<lparr> config = PStr ''./voltha.yml'', consul = PStr ''localhost:8500'',
       external_host_address = PStr ''10.0.0.5'', fluentd = PNone,
       internal_host_address = PStr ''10.0.0.5'', instance_id = PStr ''1'',
       interface = PStr ''eth0'', no_banner = False, no_heartbeat = False,
       rest_port = PInt 8880, quiet = PNone, verbose = PNone,
       instance_id_is_container_name = False \<rparr>"

definition example_started :: main_state where
  "example_started =
     \<lparr> self_args = example_args, self_config = YDict [(''logging'', YDict [])],
       coordinator = Some 1, grpc_server = Some 2 \<rparr>"

section \<open>The precedence of the sources of a setting\<close>

text \<open>
  The value that the chain command line, environment variable, built-in default gives.
\<close>

definition resolve :: "string option \<Rightarrow> string option \<Rightarrow> pyval \<Rightarrow> pyval" where
  "resolve given env dflt =
     (case given of Some s \<Rightarrow> PStr s | None \<Rightarrow> (case env of Some v \<Rightarrow> PStr v | None \<Rightarrow> dflt))"

section \<open>Evaluation\<close>

lemmas os_path_defs =
  startswith_def endswith_def path_join_def dirname_def norm_step_def normpath_def abspath_def
  config_path_def


lemmas argparse_defs =
  environ_get_def defs_def format_d_def store_def store_int_def count_def parse_args_def

lemmas run_defs = returns_def emit_def lift_def raise_if_def bind_run_def

lemmas example_defs =
  example_host_def rest_port_host_def no_options_def example_filesystem_def example_world_def
  example_args_def example_started_def

section \<open>The example run\<close>

lemma parse_example: "parse_args example_host no_options = Inr example_args"
  by (simp add: argparse_defs example_defs)

lemma config_path_example: "config_path example_filesystem ''./voltha.yml'' = ''/opt/voltha/voltha/voltha.yml''"
  by (simp add: os_path_defs example_defs)

lemma load_example: "load_config example_filesystem example_args = Inr (YDict [(''logging'', YDict [])])"
proof -
  have h: "config example_args = PStr ''./voltha.yml''"
    "files example_filesystem ''/opt/voltha/voltha/voltha.yml'' = Some ''logging: {}''"
    "yaml_load example_filesystem ''logging: {}'' = Some (YDict [(''logging'', YDict [])])"
    by (simp_all add: example_defs)
  show ?thesis by (simp add: load_config_def config_path_example h)
qed

lemma startup_example:
  "startup_components example_world s = (Inr (s\<lparr>coordinator := Some 1, grpc_server := Some 2\<rparr>),
     [LogInfo ''starting-internal-components'', StartCalled Coordinator,
   StartCalled RestService, StartCalled GrpcServer,
   LogInfo ''started-internal-services''])"
  by (simp add: startup_components_def run_defs example_world_def)

lemma main_init_example:
  "main_init example_world no_options =
     (Inr example_started,
      [ArgsParsed, ConfigLoaded, LoggingSetUp, Banner,
       HeartbeatArmed \<lparr>t0 = 100, t0s = ''Thu Jan  1 00:01:40 1970'', interval = 10\<rparr>,
       LogInfo ''starting-internal-components'', StartCalled Coordinator,
       StartCalled RestService, StartCalled GrpcServer,
       LogInfo ''started-internal-services''])"
proof -
  have h: "the_host example_world = example_host" "the_filesystem example_world = example_filesystem"
    by (simp_all add: example_world_def)
  show ?thesis
    unfolding main_init_def h parse_example
    by (simp add: run_defs load_example startup_example dict_get_def or_zero_def start_heartbeat_def)
       (simp add: example_defs run_defs start_heartbeat_def)
qed

section \<open>Settings\<close>

text \<open>
  Whenever \<^verbatim>\<open>parse_args\<close> returns, every string setting is the command-line string when
  the option is given, else the environment variable's string when it is set, else the
  built-in default; the instance id falls back from \<^verbatim>\<open>INSTANCE_ID\<close> to \<^verbatim>\<open>HOSTNAME\<close>
  to \<^verbatim>\<open>'1'\<close>, and the container's name replaces it when the flag is set.
\<close>

lemma parse_args_precedence:
  assumes "parse_args h c = Inr a"
  shows "config a = resolve (opt_config c) (environ h ''CONFIG'') (PStr ''./voltha.yml'')"
    and "consul a = resolve (opt_consul c) (environ h ''CONSUL'') (PStr ''localhost:8500'')"
    and "external_host_address a =
           resolve (opt_external_host_address c) (environ h ''EXTERNAL_HOST_ADDRESS'')
             (my_primary_local_ipv4 h)"
    and "internal_host_address a =
           resolve (opt_internal_host_address c) (environ h ''INTERNAL_HOST_ADDRESS'')
             (my_primary_local_ipv4 h)"
    and "fluentd a = resolve (opt_fluentd c) (environ h ''FLUENTD'') PNone"
    and "interface a = resolve (opt_interface c) (environ h ''INTERFACE'') (my_primary_interface h)"
    and "instance_id a =
           (if opt_instance_id_is_container_name c then my_containers_name h
            else resolve (opt_instance_id c) (environ h ''INSTANCE_ID'')
                   (resolve None (environ h ''HOSTNAME'') (PStr ''1'')))"
proof -
  let ?d = "defs h"
  from assms obtain port where
    a: "a = (if opt_instance_id_is_container_name c
             then \<lparr> config = store (opt_config c) (defs_config ?d),
                    consul = store (opt_consul c) (defs_consul ?d),
                    external_host_address =
                      store (opt_external_host_address c) (defs_external_host_address ?d),
                    fluentd = store (opt_fluentd c) (defs_fluentd ?d),
                    internal_host_address =
                      store (opt_internal_host_address c) (defs_internal_host_address ?d),
                    instance_id = my_containers_name h,
                    interface = store (opt_interface c) (defs_interface ?d),
                    no_banner = opt_no_banner c,
                    no_heartbeat = opt_no_heartbeat c,
                    rest_port = port,
                    quiet = count (opt_quiet c),
                    verbose = count (opt_verbose c),
                    instance_id_is_container_name = True \<rparr>
             else \<lparr> config = store (opt_config c) (defs_config ?d),
                    consul = store (opt_consul c) (defs_consul ?d),
                    external_host_address =
                      store (opt_external_host_address c) (defs_external_host_address ?d),
                    fluentd = store (opt_fluentd c) (defs_fluentd ?d),
                    internal_host_address =
                      store (opt_internal_host_address c) (defs_internal_host_address ?d),
                    instance_id = store (opt_instance_id c) (defs_instance_id ?d),
                    interface = store (opt_interface c) (defs_interface ?d),
                    no_banner = opt_no_banner c,
                    no_heartbeat = opt_no_heartbeat c,
                    rest_port = port,
                    quiet = count (opt_quiet c),
                    verbose = count (opt_verbose c),
                    instance_id_is_container_name = False \<rparr>)"
    unfolding parse_args_def Let_def
    by (cases "format_d (defs_rest_port ?d)";
        cases "store_int (opt_rest_port c) (defs_rest_port ?d)";
        cases "opt_instance_id_is_container_name c") auto
  have s: "\<And>g k dflt. store g (environ_get (environ h) k dflt) = resolve g (environ h k) dflt"
    by (simp add: store_def environ_get_def resolve_def split: option.splits)
  have e: "\<And>k dflt. environ_get (environ h) k dflt = resolve None (environ h k) dflt"
    by (simp add: environ_get_def resolve_def)
  show "config a = resolve (opt_config c) (environ h ''CONFIG'') (PStr ''./voltha.yml'')"
    by (simp add: a defs_def s)
  show "consul a = resolve (opt_consul c) (environ h ''CONSUL'') (PStr ''localhost:8500'')"
    by (simp add: a defs_def s)
  show "external_host_address a =
           resolve (opt_external_host_address c) (environ h ''EXTERNAL_HOST_ADDRESS'')
             (my_primary_local_ipv4 h)"
    by (simp add: a defs_def s)
  show "internal_host_address a =
           resolve (opt_internal_host_address c) (environ h ''INTERNAL_HOST_ADDRESS'')
             (my_primary_local_ipv4 h)"
    by (simp add: a defs_def s)
  show "fluentd a = resolve (opt_fluentd c) (environ h ''FLUENTD'') PNone"
    by (simp add: a defs_def s)
  show "interface a = resolve (opt_interface c) (environ h ''INTERFACE'') (my_primary_interface h)"
    by (simp add: a defs_def s)
  show "instance_id a =
           (if opt_instance_id_is_container_name c then my_containers_name h
            else resolve (opt_instance_id c) (environ h ''INSTANCE_ID'')
                   (resolve None (environ h ''HOSTNAME'') (PStr ''1'')))"
    by (simp add: a defs_def s) (simp add: e)
qed

lemma parse_args_rest_port_env:
  assumes "environ h ''REST_PORT'' = Some v"
  shows "parse_args h c = Inl TypeError"
  using assms by (simp add: argparse_defs)

lemma parse_args_config_str:
  assumes "parse_args h c = Inr a"
  shows "\<exists>p. config a = PStr p"
  using parse_args_precedence(1) [OF assms]
  by (simp add: resolve_def split: option.splits)

text \<open>
  Claim C2. The resolved value of a setting is the command-line value if given, else the
  environment variable's value, else the built-in default. For \<^verbatim>\<open>rest_port\<close> the code
  does not do this: with \<^verbatim>\<open>REST_PORT=7000\<close> in the environment, \<^verbatim>\<open>parse_args\<close> raises
  \<^verbatim>\<open>TypeError\<close> while it formats the help text with \<^verbatim>\<open>%d\<close>, whether or not
  \<^verbatim>\<open>--rest-port\<close> is given, and no setting is resolved at all.
\<close>

theorem rest_port_from_environment_raises:
  "parse_args rest_port_host no_options = Inl TypeError \<and>
   parse_args rest_port_host (no_options\<lparr>opt_rest_port := Some ''6000''\<rparr>) = Inl TypeError"
  by (simp add: argparse_defs example_defs)

section \<open>The REST port\<close>

text \<open>
  The \<^verbatim>\<open>rest_port\<close> of a namespace that \<^verbatim>\<open>parse_args\<close> returns is what the parser's
  \<^verbatim>\<open>store\<close> action with \<^verbatim>\<open>type=int\<close> made of the option and its default.
\<close>

lemma parse_args_rest_port:
  assumes "parse_args h c = Inr a"
  shows "store_int (opt_rest_port c) (defs_rest_port (defs h)) = Inr (rest_port a)"
proof -
  let ?d = "defs_rest_port (defs h)"
  from assms have f: "format_d ?d = Inr ()"
    unfolding parse_args_def Let_def by (cases "format_d ?d") auto
  from assms f show ?thesis
    unfolding parse_args_def Let_def
    by (cases "store_int (opt_rest_port c) ?d"; cases "opt_instance_id_is_container_name c") auto
qed






section \<open>The configuration file's path\<close>

lemma dropWhile_snoc_keep:
  assumes "\<not> P x"
  shows "\<exists>ys. dropWhile P (xs @ [x]) = ys @ [x]"
  using assms by (induction xs) auto

lemma startswith_slash: "startswith p ''/'' \<longleftrightarrow> (\<exists>q. p = CHR ''/'' # q)"
  by (cases p) (auto simp: startswith_def)

lemma normpath_absolute:
  assumes "startswith p ''/''"
  shows "startswith (normpath p) ''/''"
proof -
  from assms have "p \<noteq> []" by (auto simp: startswith_slash)
  with assms show ?thesis
    by (auto simp: normpath_def Let_def startswith_slash numeral_2_eq_2)
qed

lemma dirname_absolute:
  assumes "startswith p ''/''"
  shows "startswith (dirname p) ''/''"
proof -
  from assms obtain q where p: "p = CHR ''/'' # q"
    by (auto simp: startswith_slash)
  obtain ys where "dropWhile (\<lambda>c. c \<noteq> CHR ''/'') (rev q @ [CHR ''/'']) = ys @ [CHR ''/'']"
    using dropWhile_snoc_keep [of "\<lambda>c. c \<noteq> CHR ''/''" "CHR ''/''" "rev q"] by auto
  then have head: "rev (dropWhile (\<lambda>c. c \<noteq> CHR ''/'') (rev p)) = CHR ''/'' # rev ys"
    by (simp add: p)
  let ?head = "CHR ''/'' # rev ys"
  show ?thesis
  proof (cases "?head = replicate (length ?head) (CHR ''/'')")
    case True
    then show ?thesis
      unfolding dirname_def head Let_def by (simp add: startswith_slash)
  next
    case False
    then have "\<exists>y\<in>set ys. y \<noteq> CHR ''/''"
      by (metis length_rev replicate_length_same replicate_Suc length_Cons set_rev)
    then have "dropWhile (\<lambda>c. c = CHR ''/'') (ys @ [CHR ''/''])
                 = dropWhile (\<lambda>c. c = CHR ''/'') ys @ [CHR ''/'']"
      by (auto simp: dropWhile_append1)
    with False show ?thesis
      unfolding dirname_def head Let_def by (simp add: startswith_slash)
  qed
qed

lemma path_join_absolute:
  assumes "startswith a ''/''"
  shows "startswith (path_join a b) ''/''"
  using assms by (auto simp: path_join_def startswith_slash)

text \<open>
  A path that starts with a dot is resolved against the directory of \<^verbatim>\<open>main.py\<close>: when
  \<^verbatim>\<open>__file__\<close> is absolute, the working directory has no part in the result.
\<close>

lemma config_path_dot:
  assumes "startswith path ''.''" and "startswith (module_file fs) ''/''"
  shows "config_path fs path =
           normpath (path_join (dirname (normpath (module_file fs))) path)"
proof -
  have "startswith (path_join (dirname (normpath (module_file fs))) path) ''/''"
    by (intro path_join_absolute dirname_absolute normpath_absolute assms(2))
  with assms show ?thesis
    by (simp add: config_path_def abspath_def)
qed

text \<open>
  Claim C8. A relative path is resolved against the directory of \<^verbatim>\<open>main.py\<close>, whatever
  the working directory. The code does so only for a path that starts with a dot:
  \<^verbatim>\<open>conf/voltha.yml\<close> is resolved against the working directory.
\<close>

theorem relative_path_without_dot:
  "config_path (example_filesystem\<lparr>getcwd := ''/tmp''\<rparr>) ''conf/voltha.yml''
     = ''/tmp/conf/voltha.yml'' \<and>
   config_path (example_filesystem\<lparr>getcwd := ''/home/voltha''\<rparr>) ''conf/voltha.yml''
     = ''/home/voltha/conf/voltha.yml'' \<and>
   module_file example_filesystem = ''/opt/voltha/voltha/main.py''"
  by (simp add: os_path_defs example_defs)

section \<open>Runs\<close>

lemma bind_lift_Inl: "bind_run (lift (Inl e)) f = (Inl e, [])"
  by (simp add: bind_run_def lift_def)

lemma bind_lift_Inr: "bind_run (lift (Inr x)) f = f x"
  by (cases "f x") (simp add: bind_run_def lift_def)

lemma bind_emit: "bind_run (emit ev) f = (fst (f ()), ev # snd (f ()))"
  by (cases "f ()") (simp add: bind_run_def emit_def)

lemma bind_returns: "bind_run (returns x) f = f x"
  by (cases "f x") (simp add: bind_run_def returns_def)

lemma bind_raise_if_Some: "bind_run (raise_if (Some e)) f = (Inl e, [])"
  by (simp add: bind_run_def raise_if_def)

lemma bind_raise_if_None: "bind_run (raise_if None) f = f ()"
  by (cases "f ()") (simp add: bind_run_def raise_if_def)

lemmas bind_simps =
  bind_lift_Inl bind_lift_Inr bind_emit bind_returns bind_raise_if_Some bind_raise_if_None

section \<open>Startup\<close>

lemma startup_coordinator_fails:
  assumes "new_coordinator w = Inl e"
  shows "startup_components w s =
           (Inl e, [LogInfo ''starting-internal-components'', StartCalled Coordinator])"
  by (simp add: startup_components_def bind_simps assms)

lemma startup_rest_fails:
  assumes "new_coordinator w = Inr x" and "init_rest_service w = Some e"
  shows "startup_components w s =
           (Inl e, [LogInfo ''starting-internal-components'', StartCalled Coordinator,
                    StartCalled RestService])"
  by (simp add: startup_components_def bind_simps assms)

lemma startup_grpc_fails:
  assumes "new_coordinator w = Inr x" and "init_rest_service w = None"
    and "grpc_server_run w = Inl e"
  shows "startup_components w s =
           (Inl e, [LogInfo ''starting-internal-components'', StartCalled Coordinator,
                    StartCalled RestService, StartCalled GrpcServer])"
  by (simp add: startup_components_def bind_simps assms)

lemma startup_succeeds:
  assumes "new_coordinator w = Inr x" and "init_rest_service w = None"
    and "grpc_server_run w = Inr g"
  shows "startup_components w s =
           (Inr (s\<lparr>coordinator := Some x, grpc_server := g\<rparr>),
            [LogInfo ''starting-internal-components'', StartCalled Coordinator,
             StartCalled RestService, StartCalled GrpcServer,
             LogInfo ''started-internal-services''])"
  by (simp add: startup_components_def bind_simps assms returns_def)

lemma startup_Inr:
  assumes "startup_components w s = (Inr s', t)"
  obtains x g where "new_coordinator w = Inr x" and "init_rest_service w = None"
    and "grpc_server_run w = Inr g"
proof (cases "new_coordinator w")
  case (Inl e)
  with assms show ?thesis by (simp add: startup_coordinator_fails)
next
  case x: (Inr x)
  show ?thesis
  proof (cases "init_rest_service w")
    case (Some e)
    with assms x show ?thesis by (simp add: startup_rest_fails)
  next
    case None
    show ?thesis
    proof (cases "grpc_server_run w")
      case (Inl e)
      with assms x None show ?thesis by (simp add: startup_grpc_fails)
    next
      case (Inr g)
      with x None that show ?thesis by blast
    qed
  qed
qed

section \<open>Shutdown\<close>

lemma yield_shutdown_None: "yield_shutdown w None = (Fired, [])"
  by (simp add: yield_shutdown_def)

lemma shutdown_calls_yield:
  "shutdown_calls (snd (yield_shutdown w h)) = (case h of None \<Rightarrow> [] | Some x \<Rightarrow> [x])"
  by (cases h; cases "shutdown_result w (the h)") (simp_all add: yield_shutdown_def)

lemma yield_shutdown_Fired:
  "fst (yield_shutdown w h) = Fired \<longleftrightarrow> (case h of None \<Rightarrow> True | Some x \<Rightarrow> shutdown_result w x = Fired)"
  by (cases h; cases "shutdown_result w (the h)") (simp_all add: yield_shutdown_def)

lemma yield_shutdown_trace_Fired:
  assumes "fst (yield_shutdown w h) = Fired"
  shows "snd (yield_shutdown w h) =
           (case h of None \<Rightarrow> [] | Some x \<Rightarrow> [ShutdownCalled x, ShutdownDone x])"
  using assms
  by (cases h; cases "shutdown_result w (the h)") (simp_all add: yield_shutdown_def)

lemma shutdown_calls_append: "shutdown_calls (t @ u) = shutdown_calls t @ shutdown_calls u"
  by (induction t rule: shutdown_calls.induct) simp_all

lemma start_calls_append: "start_calls (t @ u) = start_calls t @ start_calls u"
  by (induction t rule: start_calls.induct) simp_all

lemma shutdown_state: "snd (fst (shutdown_components w s)) = s"
  by (cases "yield_shutdown w (coordinator s)"; cases "fst (yield_shutdown w (coordinator s))";
      cases "yield_shutdown w (grpc_server s)")
     (simp_all add: shutdown_components_def)

lemma shutdown_first_fired:
  assumes "fst (yield_shutdown w (coordinator s)) = Fired"
  shows "shutdown_components w s =
           ((fst (yield_shutdown w (grpc_server s)), s),
            LogInfo ''exiting-on-keyboard-interrupt'' # snd (yield_shutdown w (coordinator s))
              @ snd (yield_shutdown w (grpc_server s)))"
  using assms
  by (cases "yield_shutdown w (coordinator s)"; cases "yield_shutdown w (grpc_server s)")
     (simp add: shutdown_components_def)

lemma shutdown_first_not_fired:
  assumes "fst (yield_shutdown w (coordinator s)) \<noteq> Fired"
  shows "shutdown_components w s =
           ((fst (yield_shutdown w (coordinator s)), s),
            LogInfo ''exiting-on-keyboard-interrupt'' # snd (yield_shutdown w (coordinator s)))"
  using assms
  by (cases "yield_shutdown w (coordinator s)"; cases "fst (yield_shutdown w (coordinator s))")
     (simp_all add: shutdown_components_def)

lemma shutdown_calls_components:
  "shutdown_calls (snd (shutdown_components w s)) =
     (case coordinator s of
        None \<Rightarrow> (case grpc_server s of None \<Rightarrow> [] | Some g \<Rightarrow> [g])
      | Some c \<Rightarrow>
          c # (if shutdown_result w c = Fired
               then (case grpc_server s of None \<Rightarrow> [] | Some g \<Rightarrow> [g]) else []))"
proof (cases "fst (yield_shutdown w (coordinator s)) = Fired")
  case True
  then have "shutdown_calls (snd (shutdown_components w s)) =
               (case coordinator s of None \<Rightarrow> [] | Some c \<Rightarrow> [c])
                 @ (case grpc_server s of None \<Rightarrow> [] | Some g \<Rightarrow> [g])"
    by (simp add: shutdown_first_fired shutdown_calls_append shutdown_calls_yield)
  with True show ?thesis
    by (cases "coordinator s") (simp_all add: yield_shutdown_Fired)
next
  case False
  then have "shutdown_calls (snd (shutdown_components w s)) =
               (case coordinator s of None \<Rightarrow> [] | Some c \<Rightarrow> [c])"
    by (simp add: shutdown_first_not_fired shutdown_calls_yield)
  with False show ?thesis
    by (cases "coordinator s") (simp_all add: yield_shutdown_Fired)
qed

lemma shutdown_fired_trace:
  assumes "fst (fst (shutdown_components w s)) = Fired"
  shows "snd (shutdown_components w s) =
           LogInfo ''exiting-on-keyboard-interrupt''
             # (case coordinator s of None \<Rightarrow> [] | Some c \<Rightarrow> [ShutdownCalled c, ShutdownDone c])
             @ (case grpc_server s of None \<Rightarrow> [] | Some g \<Rightarrow> [ShutdownCalled g, ShutdownDone g])"
proof (cases "fst (yield_shutdown w (coordinator s)) = Fired")
  case True
  with assms have "fst (yield_shutdown w (grpc_server s)) = Fired"
    by (simp add: shutdown_first_fired)
  with True show ?thesis
    by (simp add: shutdown_first_fired yield_shutdown_trace_Fired)
next
  case False
  with assms show ?thesis by (simp add: shutdown_first_not_fired)
qed

section \<open>Claims on the shutdown sequence\<close>

text \<open>
  Claim C1, as stated: after a successful startup, shutdown calls \<^verbatim>\<open>shutdown()\<close> on the
  subsystems in the reverse of the order of their start, the gRPC server before the
  Coordinator. In the example run the Coordinator is handle 1 and the gRPC server is
  handle 2, and the calls are made in the order 1, 2.
\<close>

theorem shutdown_reverse_order_counterexample:
  "new_coordinator example_world = Inr 1 \<and> grpc_server_run example_world = Inr (Some 2) \<and>
   fst (startup_components example_world example_started) = Inr example_started \<and>
   shutdown_calls (snd (shutdown_components example_world example_started)) = [1, 2] \<and>
   shutdown_calls (snd (shutdown_components example_world example_started)) \<noteq> [2, 1]"
  by (simp add: startup_example shutdown_calls_components)
     (simp add: example_defs)

text \<open>
  Claim C1, amended: after a successful startup, shutdown calls \<^verbatim>\<open>shutdown()\<close> on the
  Coordinator first and, once that call has completed, on the gRPC server when its
  handle is not \<^verbatim>\<open>None\<close>: the order of the start, each handle once, and no call for the
  REST service, which has no handle. The shutdown call completes successfully only when
  every one of these calls has been made and has completed, each before the next one is
  made; when the Coordinator's \<^verbatim>\<open>shutdown()\<close> fails or never completes, the gRPC server's
  is not called.
\<close>

theorem shutdown_in_start_order:
  assumes "startup_components w s0 = (Inr s, t)"
  shows "\<exists>c. new_coordinator w = Inr c \<and> coordinator s = Some c \<and>
             grpc_server_run w = Inr (grpc_server s) \<and>
             shutdown_calls (snd (shutdown_components w' s)) =
               c # (if shutdown_result w' c = Fired
                    then (case grpc_server s of None \<Rightarrow> [] | Some g \<Rightarrow> [g]) else []) \<and>
             (fst (fst (shutdown_components w' s)) = Fired \<longrightarrow>
                snd (shutdown_components w' s) =
                  LogInfo ''exiting-on-keyboard-interrupt'' # ShutdownCalled c # ShutdownDone c
                    # (case grpc_server s of None \<Rightarrow> []
                       | Some g \<Rightarrow> [ShutdownCalled g, ShutdownDone g]))"
proof -
  from assms obtain x g where
    w: "new_coordinator w = Inr x" "init_rest_service w = None" "grpc_server_run w = Inr g"
    by (rule startup_Inr)
  with assms have s: "s = s0\<lparr>coordinator := Some x, grpc_server := g\<rparr>"
    by (simp add: startup_succeeds)
  then have c: "coordinator s = Some x" and g: "grpc_server s = g"
    by simp_all
  have "shutdown_calls (snd (shutdown_components w' s)) =
          x # (if shutdown_result w' x = Fired
               then (case grpc_server s of None \<Rightarrow> [] | Some g \<Rightarrow> [g]) else [])"
    by (simp add: shutdown_calls_components c)
  moreover have "fst (fst (shutdown_components w' s)) = Fired \<longrightarrow>
      snd (shutdown_components w' s) =
        LogInfo ''exiting-on-keyboard-interrupt'' # ShutdownCalled x # ShutdownDone x
          # (case grpc_server s of None \<Rightarrow> [] | Some g \<Rightarrow> [ShutdownCalled g, ShutdownDone g])"
    by (simp add: shutdown_fired_trace c)
  ultimately show ?thesis
    using w c g by simp
qed

theorem shutdown_in_start_order_witness:
  "startup_components example_world example_started =
     (Inr example_started,
      [LogInfo ''starting-internal-components'', StartCalled Coordinator,
       StartCalled RestService, StartCalled GrpcServer,
       LogInfo ''started-internal-services'']) \<and>
   shutdown_calls (snd (shutdown_components example_world example_started)) = [1, 2] \<and>
   fst (fst (shutdown_components example_world example_started)) = Fired \<and>
   snd (shutdown_components example_world example_started) =
     [LogInfo ''exiting-on-keyboard-interrupt'', ShutdownCalled 1, ShutdownDone 1,
      ShutdownCalled 2, ShutdownDone 2]"
proof -
  have h: "startup_components example_world example_started =
     (Inr example_started,
      [LogInfo ''starting-internal-components'', StartCalled Coordinator,
       StartCalled RestService, StartCalled GrpcServer,
       LogInfo ''started-internal-services''])"
    by (simp add: startup_example) (simp add: example_started_def)
  have f: "fst (fst (shutdown_components example_world example_started)) = Fired"
    by (simp add: shutdown_components_def yield_shutdown_def example_world_def example_started_def)
  have n: "new_coordinator example_world = Inr 1" "shutdown_result example_world 1 = Fired"
    "grpc_server example_started = Some 2"
    by (simp_all add: example_world_def example_started_def)
  from shutdown_in_start_order [OF h, of example_world] show ?thesis
    using h f n by auto
qed

text \<open>
  Claim C3, as stated: a complete shutdown clears the handles, and a second shutdown
  makes no teardown call. In the example run the handles are still there after the
  first shutdown, and the second shutdown calls \<^verbatim>\<open>shutdown()\<close> on both again.
\<close>

theorem shutdown_idempotent_counterexample:
  "fst (fst (shutdown_components example_world example_started)) = Fired \<and>
   coordinator (snd (fst (shutdown_components example_world example_started))) = Some 1 \<and>
   grpc_server (snd (fst (shutdown_components example_world example_started))) = Some 2 \<and>
   shutdown_calls
     (snd (shutdown_components example_world
             (snd (fst (shutdown_components example_world example_started))))) = [1, 2]"
  by (simp add: shutdown_state shutdown_calls_components)
     (simp add: shutdown_components_def yield_shutdown_def example_world_def example_started_def)

text \<open>
  Claim C3, amended: shutdown does not clear the handles. After a shutdown the
  Coordinator and gRPC server handles are what they were, and a second shutdown makes
  the same \<^verbatim>\<open>shutdown()\<close> calls as a first one would in its place.
\<close>

theorem shutdown_keeps_handles:
  "coordinator (snd (fst (shutdown_components w s))) = coordinator s \<and>
   grpc_server (snd (fst (shutdown_components w s))) = grpc_server s \<and>
   shutdown_calls (snd (shutdown_components w' (snd (fst (shutdown_components w s))))) =
     shutdown_calls (snd (shutdown_components w' s))"
  by (simp add: shutdown_state)

text \<open>
  Claim C9. A handle that is \<^verbatim>\<open>None\<close> is skipped: with the Coordinator handle absent the
  only \<^verbatim>\<open>shutdown()\<close> call is the one on the gRPC server handle, if there is one; with
  the gRPC server handle absent the only call is the one on the Coordinator handle, if
  there is one; and the sequence runs to completion when both are absent.
\<close>

theorem shutdown_skips_absent_handles:
  "shutdown_calls (snd (shutdown_components w (s\<lparr>coordinator := None\<rparr>))) =
     (case grpc_server s of None \<Rightarrow> [] | Some g \<Rightarrow> [g]) \<and>
   shutdown_calls (snd (shutdown_components w (s\<lparr>grpc_server := None\<rparr>))) =
     (case coordinator s of None \<Rightarrow> [] | Some c \<Rightarrow> [c]) \<and>
   shutdown_components w (s\<lparr>coordinator := None, grpc_server := None\<rparr>) =
     ((Fired, s\<lparr>coordinator := None, grpc_server := None\<rparr>),
      [LogInfo ''exiting-on-keyboard-interrupt''])"
proof -
  have "shutdown_calls (snd (shutdown_components w (s\<lparr>coordinator := None\<rparr>))) =
          (case grpc_server s of None \<Rightarrow> [] | Some g \<Rightarrow> [g])"
    by (simp add: shutdown_calls_components)
  moreover have "shutdown_calls (snd (shutdown_components w (s\<lparr>grpc_server := None\<rparr>))) =
          (case coordinator s of None \<Rightarrow> [] | Some c \<Rightarrow> [c])"
    by (cases "coordinator s") (simp_all add: shutdown_calls_components)
  moreover have "shutdown_components w (s\<lparr>coordinator := None, grpc_server := None\<rparr>) =
          ((Fired, s\<lparr>coordinator := None, grpc_server := None\<rparr>),
           [LogInfo ''exiting-on-keyboard-interrupt''])"
    by (simp add: shutdown_components_def yield_shutdown_None)
  ultimately show ?thesis by simp
qed

section \<open>Initialisation\<close>

text \<open>
  What \<^verbatim>\<open>__init__\<close> does once the settings, the configuration and the logging are there:
  the banner and the heartbeat, then the start of the subsystems.
\<close>

lemma main_init_settings:
  assumes "parse_args (the_host w) c = Inr a"
    and "load_config (the_filesystem w) a = Inr cfg"
    and "dict_get cfg ''logging'' (YDict []) = Inr lg"
    and "setup_logging w lg (instance_id a) (or_zero (verbose a) - or_zero (quiet a)) (fluentd a)
           = None"
  shows "main_init w c =
           (fst (startup_components w
                   \<lparr> self_args = a, self_config = cfg, coordinator = None, grpc_server = None \<rparr>),
            [ArgsParsed, ConfigLoaded, LoggingSetUp]
              @ (if no_banner a then [] else [Banner])
              @ (if no_heartbeat a then []
                 else [HeartbeatArmed (start_heartbeat (time_ctime w) (time_time w))])
              @ snd (startup_components w
                       \<lparr> self_args = a, self_config = cfg, coordinator = None,
                         grpc_server = None \<rparr>))"
  by (simp add: main_init_def assms bind_simps)

lemma main_init_load_fails:
  assumes "parse_args (the_host w) c = Inr a"
    and "load_config (the_filesystem w) a = Inl e"
  shows "main_init w c = (Inl e, [ArgsParsed])"
  by (simp add: main_init_def assms bind_simps)

lemma main_init_Inr:
  assumes "main_init w c = (Inr s, t)"
  obtains a cfg lg where "parse_args (the_host w) c = Inr a"
    and "load_config (the_filesystem w) a = Inr cfg"
    and "dict_get cfg ''logging'' (YDict []) = Inr lg"
    and "setup_logging w lg (instance_id a) (or_zero (verbose a) - or_zero (quiet a)) (fluentd a)
           = None"
proof (cases "parse_args (the_host w) c")
  case (Inl e)
  with assms show ?thesis by (simp add: main_init_def bind_simps)
next
  case a: (Inr a)
  show ?thesis
  proof (cases "load_config (the_filesystem w) a")
    case (Inl e)
    with assms a show ?thesis by (simp add: main_init_load_fails)
  next
    case cfg: (Inr cfg)
    show ?thesis
    proof (cases "dict_get cfg ''logging'' (YDict [])")
      case (Inl e)
      with assms a cfg show ?thesis by (simp add: main_init_def bind_simps)
    next
      case lg: (Inr lg)
      show ?thesis
      proof (cases "setup_logging w lg (instance_id a)
                      (or_zero (verbose a) - or_zero (quiet a)) (fluentd a)")
        case None
        with a cfg lg that show ?thesis by blast
      next
        case (Some e)
        with assms a cfg lg show ?thesis by (simp add: main_init_def bind_simps)
      qed
    qed
  qed
qed

lemma main_crashed:
  assumes "fst (main_init w c) = Inl e"
  shows "main w c = (Crashed e, snd (main_init w c))"
  using assms by (cases "main_init w c") (simp add: main_def)

lemma main_started:
  assumes "main_init w c = (Inr s, t)"
  shows "\<exists>t'. main w c = (fst (start_reactor w s), t @ ReactorRun # t')"
proof -
  have "\<exists>t'. snd (start_reactor w s) = ReactorRun # t'"
    by (cases "shutdown_components w s"; cases "fst (fst (shutdown_components w s))")
       (auto simp: start_reactor_def)
  then show ?thesis
    using assms by (cases "start_reactor w s") (auto simp: main_def)
qed

section \<open>Claims on startup\<close>

lemma startup_failure:
  assumes "k < length declared"
    and "start_failure w (declared ! k) = Some e"
    and "\<forall>j<k. start_failure w (declared ! j) = None"
  shows "startup_components w s =
           (Inl e, LogInfo ''starting-internal-components''
                     # map StartCalled (take (Suc k) declared))"
proof -
  from assms(1) have "k < 3"
    by (simp add: declared_def)
  then consider "k = 0" | "k = 1" | "k = 2"
    by arith
  then show ?thesis
  proof cases
    case 1
    with assms(2) have "new_coordinator w = Inl e"
      by (cases "new_coordinator w") (simp_all add: declared_def start_failure_def)
    with 1 show ?thesis
      by (simp add: startup_coordinator_fails declared_def)
  next
    case 2
    with assms(3) have "start_failure w (declared ! 0) = None" by simp
    then obtain x where x: "new_coordinator w = Inr x"
      by (cases "new_coordinator w") (simp_all add: declared_def start_failure_def)
    from 2 assms(2) have "init_rest_service w = Some e"
      by (simp add: declared_def start_failure_def)
    with 2 x show ?thesis
      by (simp add: startup_rest_fails declared_def)
  next
    case 3
    with assms(3) have "start_failure w (declared ! 0) = None"
      and r: "start_failure w (declared ! 1) = None" by simp_all
    then obtain x where x: "new_coordinator w = Inr x"
      by (cases "new_coordinator w") (simp_all add: declared_def start_failure_def)
    from r have r': "init_rest_service w = None"
      by (simp add: declared_def start_failure_def)
    from 3 assms(2) have "grpc_server_run w = Inl e"
      by (cases "grpc_server_run w") (simp_all add: declared_def start_failure_def)
    with 3 x r' show ?thesis
      by (simp add: startup_grpc_fails declared_def eval_nat_numeral)
  qed
qed

lemma start_calls_map: "start_calls (map StartCalled xs) = xs"
  by (induction xs) simp_all

lemma shutdown_calls_starts: "shutdown_calls (map StartCalled xs) = []"
  by (induction xs) simp_all

text \<open>
  Claim C4. When the start of subsystem \<open>k\<close> fails during startup (the settings, the
  configuration and the logging being there), the starts invoked are those of the
  subsystems up to \<open>k\<close>, once each and in the declared order; no \<^verbatim>\<open>shutdown()\<close> is
  invoked; the exception leaves the process, which never enters the reactor.
\<close>

theorem failed_start_propagates:
  assumes "parse_args (the_host w) c = Inr a"
    and "load_config (the_filesystem w) a = Inr cfg"
    and "dict_get cfg ''logging'' (YDict []) = Inr lg"
    and "setup_logging w lg (instance_id a) (or_zero (verbose a) - or_zero (quiet a)) (fluentd a)
           = None"
    and "k < length declared"
    and "start_failure w (declared ! k) = Some e"
    and "\<forall>j<k. start_failure w (declared ! j) = None"
  shows "fst (main w c) = Crashed e \<and>
         start_calls (snd (main w c)) = take (Suc k) declared \<and>
         shutdown_calls (snd (main w c)) = [] \<and>
         ReactorRun \<notin> set (snd (main w c))"
proof -
  let ?s = "\<lparr> self_args = a, self_config = cfg, coordinator = None, grpc_server = None \<rparr>"
  let ?t = "[ArgsParsed, ConfigLoaded, LoggingSetUp]
              @ (if no_banner a then [] else [Banner])
              @ (if no_heartbeat a then []
                 else [HeartbeatArmed (start_heartbeat (time_ctime w) (time_time w))])
              @ LogInfo ''starting-internal-components''
                  # map StartCalled (take (Suc k) declared)"
  have f: "startup_components w ?s =
             (Inl e, LogInfo ''starting-internal-components''
                       # map StartCalled (take (Suc k) declared))"
    using assms(5-7) by (rule startup_failure)
  have i: "main_init w c = (Inl e, ?t)"
    by (simp add: main_init_settings [OF assms(1-4)] f)
  then have m: "main w c = (Crashed e, ?t)"
    by (simp add: main_crashed)
  have "start_calls ?t = take (Suc k) declared"
    by (simp add: start_calls_append start_calls_map)
  moreover have "shutdown_calls ?t = []"
    by (simp add: shutdown_calls_append shutdown_calls_starts)
  moreover have "ReactorRun \<notin> set ?t"
    by auto
  ultimately show ?thesis
    by (simp only: m fst_conv snd_conv simp_thms)
qed

theorem failed_start_propagates_witness:
  "main rest_failing_world no_options =
     (Crashed (Raised 7),
      [ArgsParsed, ConfigLoaded, LoggingSetUp, Banner,
       HeartbeatArmed \<lparr>t0 = 100, t0s = ''Thu Jan  1 00:01:40 1970'', interval = 10\<rparr>,
       LogInfo ''starting-internal-components'', StartCalled Coordinator,
       StartCalled RestService]) \<and>
   start_failure rest_failing_world RestService = Some (Raised 7) \<and>
   start_calls (snd (main rest_failing_world no_options)) = [Coordinator, RestService] \<and>
   shutdown_calls (snd (main rest_failing_world no_options)) = []"
proof -
  have w: "the_host rest_failing_world = example_host"
    "the_filesystem rest_failing_world = example_filesystem"
    by (simp_all add: rest_failing_world_def example_world_def)
  have 1: "parse_args (the_host rest_failing_world) no_options = Inr example_args"
    by (simp add: w parse_example)
  have 2: "load_config (the_filesystem rest_failing_world) example_args
             = Inr (YDict [(''logging'', YDict [])])"
    by (simp add: w load_example)
  have 3: "dict_get (YDict [(''logging'', YDict [])]) ''logging'' (YDict []) = Inr (YDict [])"
    by (simp add: dict_get_def)
  have 4: "setup_logging rest_failing_world (YDict []) (instance_id example_args)
             (or_zero (verbose example_args) - or_zero (quiet example_args))
             (fluentd example_args) = None"
    by (simp add: rest_failing_world_def example_world_def)
  have 5: "1 < length declared"
    by (simp add: declared_def)
  have 6: "start_failure rest_failing_world (declared ! 1) = Some (Raised 7)"
    by (simp add: declared_def start_failure_def rest_failing_world_def example_world_def)
  have 7: "\<forall>j<1. start_failure rest_failing_world (declared ! j) = None"
    by (simp add: declared_def start_failure_def rest_failing_world_def example_world_def)
  have s: "startup_components rest_failing_world
             \<lparr> self_args = example_args, self_config = YDict [(''logging'', YDict [])],
               coordinator = None, grpc_server = None \<rparr> =
           (Inl (Raised 7), [LogInfo ''starting-internal-components'', StartCalled Coordinator,
                    StartCalled RestService])"
    by (rule startup_rest_fails [where x = 1])
       (simp_all add: rest_failing_world_def example_world_def)
  have i: "main_init rest_failing_world no_options =
     (Inl (Raised 7),
      [ArgsParsed, ConfigLoaded, LoggingSetUp, Banner,
       HeartbeatArmed \<lparr>t0 = 100, t0s = ''Thu Jan  1 00:01:40 1970'', interval = 10\<rparr>,
       LogInfo ''starting-internal-components'', StartCalled Coordinator,
       StartCalled RestService])"
    by (simp add: main_init_settings [OF 1 2 3 4] s)
       (simp add: example_args_def start_heartbeat_def rest_failing_world_def example_world_def)
  have m: "main rest_failing_world no_options =
     (Crashed (Raised 7),
      [ArgsParsed, ConfigLoaded, LoggingSetUp, Banner,
       HeartbeatArmed \<lparr>t0 = 100, t0s = ''Thu Jan  1 00:01:40 1970'', interval = 10\<rparr>,
       LogInfo ''starting-internal-components'', StartCalled Coordinator,
       StartCalled RestService])"
    by (simp add: main_crashed i)
  from failed_start_propagates [OF 1 2 3 4 5 6 7] 6 m show ?thesis
    by (simp add: declared_def)
qed

text \<open>
  Claim C5. When the configuration file at the resolved path cannot be read, or its text
  cannot be parsed, the process ends with that exception right after the arguments were
  parsed: no subsystem's start is invoked, and no default configuration takes the place
  of the file.
\<close>

theorem unreadable_config_is_fatal:
  assumes "parse_args (the_host w) c = Inr a"
    and "config a = PStr p"
    and "files (the_filesystem w) (config_path (the_filesystem w) p) = None \<or>
         (\<exists>text. files (the_filesystem w) (config_path (the_filesystem w) p) = Some text \<and>
                 yaml_load (the_filesystem w) text = None)"
  shows "main w c =
           (Crashed (if files (the_filesystem w) (config_path (the_filesystem w) p) = None
                     then IOError else YAMLError), [ArgsParsed]) \<and>
         start_calls (snd (main w c)) = []"
proof -
  let ?e = "if files (the_filesystem w) (config_path (the_filesystem w) p) = None
            then IOError else YAMLError"
  from assms(2,3) have "load_config (the_filesystem w) a = Inl ?e"
    by (auto simp: load_config_def)
  with assms(1) have "main_init w c = (Inl ?e, [ArgsParsed])"
    by (rule main_init_load_fails)
  then have "main w c = (Crashed ?e, [ArgsParsed])"
    by (simp add: main_crashed)
  then show ?thesis by simp
qed

theorem unreadable_config_is_fatal_witness:
  "parse_args (the_host unreadable_world) no_options = Inr example_args \<and>
   config example_args = PStr ''./voltha.yml'' \<and>
   files (the_filesystem unreadable_world)
     (config_path (the_filesystem unreadable_world) ''./voltha.yml'') = None \<and>
   main unreadable_world no_options = (Crashed IOError, [ArgsParsed]) \<and>
   start_calls (snd (main unreadable_world no_options)) = []"
proof -
  have 1: "parse_args (the_host unreadable_world) no_options = Inr example_args"
    by (simp add: unreadable_world_def example_world_def parse_example)
  have 2: "config example_args = PStr ''./voltha.yml''"
    by (simp add: example_args_def)
  have 3: "files (the_filesystem unreadable_world)
             (config_path (the_filesystem unreadable_world) ''./voltha.yml'') = None"
    by (simp add: unreadable_world_def example_world_def)
  from unreadable_config_is_fatal [OF 1 2 disjI1 [OF 3]] 1 2 3 show ?thesis
    by simp
qed

section \<open>The order of the phases\<close>

lemma start_reactor_example:
  "start_reactor example_world example_started =
     (Exited,
      [ReactorRun, LogInfo ''twisted-reactor-started'',
       LogInfo ''exiting-on-keyboard-interrupt'', ShutdownCalled 1, ShutdownDone 1,
       ShutdownCalled 2, ShutdownDone 2, ReactorStopped])"
  by (simp add: start_reactor_def shutdown_components_def yield_shutdown_def
        example_world_def example_started_def)

lemma main_example:
  "main example_world no_options =
     (Exited,
      [ArgsParsed, ConfigLoaded, LoggingSetUp, Banner,
       HeartbeatArmed \<lparr>t0 = 100, t0s = ''Thu Jan  1 00:01:40 1970'', interval = 10\<rparr>,
       LogInfo ''starting-internal-components'', StartCalled Coordinator,
       StartCalled RestService, StartCalled GrpcServer,
       LogInfo ''started-internal-services'',
       ReactorRun, LogInfo ''twisted-reactor-started'',
       LogInfo ''exiting-on-keyboard-interrupt'', ShutdownCalled 1, ShutdownDone 1,
       ShutdownCalled 2, ShutdownDone 2, ReactorStopped])"
  by (simp add: main_def main_init_example start_reactor_example)

text \<open>
  Claim C7, as stated: the heartbeat is armed only after all subsystems have started. In
  the example run, which has the heartbeat enabled, the timer is armed before the first
  start is invoked, and no start precedes it.
\<close>

theorem heartbeat_after_startup_counterexample:
  "opt_no_heartbeat no_options = False \<and>
   fst (main example_world no_options) = Exited \<and>
   occurs_before
     (HeartbeatArmed \<lparr>t0 = 100, t0s = ''Thu Jan  1 00:01:40 1970'', interval = 10\<rparr>)
     (StartCalled Coordinator) (snd (main example_world no_options)) \<and>
   \<not> occurs_before (StartCalled GrpcServer)
     (HeartbeatArmed \<lparr>t0 = 100, t0s = ''Thu Jan  1 00:01:40 1970'', interval = 10\<rparr>)
     (snd (main example_world no_options))"
proof -
  have "opt_no_heartbeat no_options = False"
    by (simp add: no_options_def)
  then show ?thesis
    by (simp add: main_example occurs_before_def)
qed

text \<open>
  Claim C7, amended: in every run whose initialisation succeeds, the settings are
  resolved and the configuration is loaded first, then the heartbeat is armed if it is
  enabled, then the subsystems are started in the declared order, and then the reactor
  is entered: the heartbeat is armed before any subsystem is started.
\<close>

theorem phases_in_order:
  assumes "main_init w c = (Inr s, t)"
  shows "parse_args (the_host w) c = Inr (self_args s) \<and>
         load_config (the_filesystem w) (self_args s) = Inr (self_config s) \<and>
         t = [ArgsParsed, ConfigLoaded, LoggingSetUp]
               @ (if no_banner (self_args s) then [] else [Banner])
               @ (if no_heartbeat (self_args s) then []
                  else [HeartbeatArmed (start_heartbeat (time_ctime w) (time_time w))])
               @ [LogInfo ''starting-internal-components'', StartCalled Coordinator,
                  StartCalled RestService, StartCalled GrpcServer,
                  LogInfo ''started-internal-services''] \<and>
         (\<exists>t'. snd (main w c) = t @ ReactorRun # t')"
proof -
  from assms obtain a cfg lg where
    h: "parse_args (the_host w) c = Inr a"
       "load_config (the_filesystem w) a = Inr cfg"
       "dict_get cfg ''logging'' (YDict []) = Inr lg"
       "setup_logging w lg (instance_id a) (or_zero (verbose a) - or_zero (quiet a)) (fluentd a)
          = None"
    by (rule main_init_Inr)
  let ?s = "\<lparr> self_args = a, self_config = cfg, coordinator = None, grpc_server = None \<rparr>"
  from assms have i: "fst (startup_components w ?s) = Inr s"
    and t: "t = [ArgsParsed, ConfigLoaded, LoggingSetUp]
               @ (if no_banner a then [] else [Banner])
               @ (if no_heartbeat a then []
                  else [HeartbeatArmed (start_heartbeat (time_ctime w) (time_time w))])
               @ snd (startup_components w ?s)"
    by (simp_all add: main_init_settings [OF h])
  then have "startup_components w ?s = (Inr s, snd (startup_components w ?s))"
    by (cases "startup_components w ?s") simp
  then obtain x g where
    "new_coordinator w = Inr x" "init_rest_service w = None" "grpc_server_run w = Inr g"
    by (rule startup_Inr)
  then have u: "startup_components w ?s =
           (Inr (?s\<lparr>coordinator := Some x, grpc_server := g\<rparr>),
            [LogInfo ''starting-internal-components'', StartCalled Coordinator,
             StartCalled RestService, StartCalled GrpcServer,
             LogInfo ''started-internal-services''])"
    by (rule startup_succeeds)
  with i have s: "s = ?s\<lparr>coordinator := Some x, grpc_server := g\<rparr>"
    by simp
  then have a: "self_args s = a" and c: "self_config s = cfg"
    by simp_all
  from main_started [OF assms] obtain t' where "main w c = (fst (start_reactor w s), t @ ReactorRun # t')"
    by blast
  then have "\<exists>t'. snd (main w c) = t @ ReactorRun # t'"
    by simp
  with h(1,2) t u a c show ?thesis
    by simp
qed

theorem phases_in_order_witness:
  "main_init example_world no_options =
     (Inr example_started,
      [ArgsParsed, ConfigLoaded, LoggingSetUp, Banner,
       HeartbeatArmed \<lparr>t0 = 100, t0s = ''Thu Jan  1 00:01:40 1970'', interval = 10\<rparr>,
       LogInfo ''starting-internal-components'', StartCalled Coordinator,
       StartCalled RestService, StartCalled GrpcServer,
       LogInfo ''started-internal-services'']) \<and>
   parse_args (the_host example_world) no_options = Inr (self_args example_started) \<and>
   (\<exists>t'. snd (main example_world no_options) =
      [ArgsParsed, ConfigLoaded, LoggingSetUp, Banner,
       HeartbeatArmed \<lparr>t0 = 100, t0s = ''Thu Jan  1 00:01:40 1970'', interval = 10\<rparr>,
       LogInfo ''starting-internal-components'', StartCalled Coordinator,
       StartCalled RestService, StartCalled GrpcServer,
       LogInfo ''started-internal-services''] @ ReactorRun # t')"
  using phases_in_order [OF main_init_example] main_init_example
  by simp

section \<open>The heartbeat\<close>






end
